theory Spec2Isabelle
  imports Main
begin

section \<open>JavaScript values\<close>

text \<open>
  The payloads that the linking flow reads are JSON objects whose fields hold strings,
  booleans, nested objects, or are missing. A missing field reads as \<open>Undefined\<close>.
  Numbers and arrays do not occur in the fields this flow reads and are left out.
  An object is its list of fields in insertion order.
\<close>

datatype jsval = Undefined | Null | JBool bool | JStr string | JObj "(string \<times> jsval) list"

type_synonym jsobj = "(string \<times> jsval) list"

text \<open>JavaScript truthiness: the empty string, \<open>null\<close>, \<open>undefined\<close> and \<open>false\<close> are falsy.\<close>

fun truthy :: "jsval \<Rightarrow> bool" where
  "truthy Undefined = False"
| "truthy Null = False"
| "truthy (JBool b) = b"
| "truthy (JStr s) = (s \<noteq> [])"
| "truthy (JObj fs) = True"

text \<open>Member access \<open>obj.k\<close> on an object.\<close>

definition js_get :: "jsobj \<Rightarrow> string \<Rightarrow> jsval" where
  "js_get obj k = (case map_of obj k of None \<Rightarrow> Undefined | Some v \<Rightarrow> v)"

text \<open>The operator \<open>a || b\<close>: the left operand when it is truthy, the right one otherwise.\<close>

definition js_or :: "jsval \<Rightarrow> jsval \<Rightarrow> jsval" where
  "js_or a b = (if truthy a then a else b)"

text \<open>Interpolation \<open>${v}\<close> inside a template literal.\<close>

fun template :: "jsval \<Rightarrow> string" where
  "template Undefined = ''undefined''"
| "template Null = ''null''"
| "template (JBool b) = (if b then ''true'' else ''false'')"
| "template (JStr s) = s"
| "template (JObj fs) = ''[object Object]''"

text \<open>
  The object literal \<open>{...obj, k: v}\<close>: an existing field \<open>k\<close> keeps its place and takes
  the new value, a new field goes last.
\<close>

fun js_set :: "string \<Rightarrow> jsval \<Rightarrow> jsobj \<Rightarrow> jsobj" where
  "js_set k v [] = [(k, v)]"
| "js_set k v ((k', v') # fs) =
     (if k' = k then (k, v) # fs else (k', v') # js_set k v fs)"

text \<open>
  A value that may be absent as a whole: the body of a response, which the code tests
  with \<open>x && ...\<close> before using it.
\<close>

datatype 'a nullable = IsUndefined | IsNull | Present 'a

section \<open>The environment: network, timers, notifications\<close>

datatype http_method = GET | POST | DELETE

datatype request = Request http_method string "jsobj option"

text \<open>
  An \<open>api\<close> call either resolves with the response body or rejects. A rejection carries
  \<open>error.response?.data?.detail\<close>: the \<open>detail\<close> string of the error body, or nothing
  when the transport failed or the body has no such field.
\<close>

datatype 'a outcome = Resolved 'a | Rejected "string option"

datatype timer = PollTick | AutoClose

datatype toast_kind = ToastSuccess | ToastError

datatype step = Initial | Credentials | Processing | Success | Error

text \<open>
  The state of the settings page (\<open>showTwitterModal\<close>, here \<open>isOpen\<close>, and
  \<open>twitterAccounts\<close>), of the modal it always keeps mounted (\<open>step\<close>, \<open>requestId\<close>,
  \<open>error\<close>, \<open>statusCheckInterval\<close>) and of the environment: the requests sent so far,
  the timers that are active with their handles, the notifications shown, and the number
  of \<open>startTwitterAuth\<close> calls that have not settled yet. The cleanup of the modal's
  effect is a closure: \<open>effectInterval\<close> is the \<open>statusCheckInterval\<close> it closed over
  when the effect last ran.
\<close>

record world =
  isOpen :: bool
  step :: step
  requestId :: jsval
  error :: jsval
  statusCheckInterval :: "nat option"
  effectInterval :: "nat option"
  twitterAccounts :: "jsobj list"
  network :: "request list"
  timers :: "(nat \<times> timer) list"
  toasts :: "(toast_kind \<times> string) list"
  startsInFlight :: nat

definition initial_world :: world where
  "initial_world = \<lparr> isOpen = False, step = Initial, requestId = Null, error = Null,
     statusCheckInterval = None, effectInterval = None, twitterAccounts = [], network = [], timers = [],
     toasts = [], startsInFlight = 0 \<rparr>"

definition send :: "request \<Rightarrow> world \<Rightarrow> world" where
  "send r w = w\<lparr>network := network w @ [r]\<rparr>"

definition toast :: "toast_kind \<Rightarrow> string \<Rightarrow> world \<Rightarrow> world" where
  "toast k m w = w\<lparr>toasts := toasts w @ [(k, m)]\<rparr>"

text \<open>\<open>clearInterval(h)\<close> and \<open>setTimeout(f, ms)\<close>; a new timer takes an unused handle.\<close>

definition clearInterval :: "nat \<Rightarrow> world \<Rightarrow> world" where
  "clearInterval h w = w\<lparr>timers := filter (\<lambda>(h', t). h' \<noteq> h) (timers w)\<rparr>"

definition fresh_handle :: "world \<Rightarrow> nat" where
  "fresh_handle w = Suc (fold max (map fst (timers w)) 0)"

definition setTimeout :: "timer \<Rightarrow> world \<Rightarrow> world" where
  "setTimeout t w = w\<lparr>timers := timers w @ [(fresh_handle w, t)]\<rparr>"

section \<open>authService\<close>

text \<open>
  Every method of \<open>authService\<close> awaits one \<open>api\<close> call and returns \<open>response.data\<close>; when
  the call rejects it throws \<open>new Error(error.response?.data?.detail || fallback)\<close>.
  The thrown error is the \<open>Inl\<close> branch, holding its message.
\<close>

definition thrown :: "string option \<Rightarrow> string \<Rightarrow> string" where
  "thrown detail fallback =
     (case detail of None \<Rightarrow> fallback | Some d \<Rightarrow> if d \<noteq> [] then d else fallback)"

definition settle :: "string \<Rightarrow> 'a outcome \<Rightarrow> string + 'a" where
  "settle fallback out =
     (case out of Resolved d \<Rightarrow> Inr d | Rejected detail \<Rightarrow> Inl (thrown detail fallback))"

definition removeTwitterAccount_request :: "string \<Rightarrow> request" where
  "removeTwitterAccount_request username = Request DELETE (''/user/accounts/'' @ username) None"

definition removeTwitterAccount :: "jsval outcome \<Rightarrow> string + jsval" where
  "removeTwitterAccount out = settle ''Failed to remove Twitter account'' out"

definition startTwitterAuth_request :: request where
  "startTwitterAuth_request = Request POST ''/user/auth/twitter/request'' None"

definition startTwitterAuth :: "jsobj outcome \<Rightarrow> string + jsobj" where
  "startTwitterAuth out = settle ''Failed to start Twitter authentication'' out"

definition checkTwitterAuthStatus_request :: "jsval \<Rightarrow> request" where
  "checkTwitterAuthStatus_request rid =
     Request GET (''/user/auth/twitter/status/'' @ template rid) None"

definition checkTwitterAuthStatus :: "jsobj outcome \<Rightarrow> string + jsobj" where
  "checkTwitterAuthStatus out = settle ''Failed to check Twitter authentication status'' out"

text \<open>
  The request body is serialised as JSON, which drops the fields whose value is
  \<open>undefined\<close>.
\<close>

definition json_body :: "jsobj \<Rightarrow> jsobj" where
  "json_body obj = filter (\<lambda>(k, v). v \<noteq> Undefined) obj"

definition completeTwitterAuth_request :: "jsval \<Rightarrow> jsobj \<Rightarrow> request" where
  "completeTwitterAuth_request rid credentials =
     Request POST (''/user/auth/twitter/authenticate/'' @ template rid)
       (Some (json_body credentials))"

definition completeTwitterAuth :: "jsobj outcome \<Rightarrow> string + jsobj" where
  "completeTwitterAuth out = settle ''Failed to complete Twitter authentication'' out"

definition getTwitterAccounts_request :: request where
  "getTwitterAccounts_request = Request GET ''/user/twitter-accounts'' None"

definition getTwitterAccounts :: "jsobj list nullable outcome \<Rightarrow> string + jsobj list nullable" where
  "getTwitterAccounts out = settle ''Failed to get Twitter accounts'' out"

text \<open>
  \<open>hasLinkedTwitterAccount\<close> returns \<open>accounts && accounts.length > 0\<close>, which is the
  absent value itself when \<open>accounts\<close> is absent, and \<open>false\<close> when the fetch throws.
\<close>

definition hasLinkedTwitterAccount :: "jsobj list nullable outcome \<Rightarrow> bool nullable" where
  "hasLinkedTwitterAccount out =
     (case getTwitterAccounts out of
        Inr accounts \<Rightarrow>
          (case accounts of
             IsUndefined \<Rightarrow> IsUndefined
           | IsNull \<Rightarrow> IsNull
           | Present xs \<Rightarrow> Present (length xs > 0))
      | Inl message \<Rightarrow> Present False)"

section \<open>The linking modal (TwitterAuthModal)\<close>

text \<open>
  Each handler is an \<open>async\<close> function. It is modelled as one atomic update of the world
  that takes the outcome of every call it awaits; \<open>startAuth\<close> is also given in its two
  halves, before and after the \<open>await\<close>. \<open>console.error\<close> has no effect on the world and
  is left out.

  A block of statements either completes or throws an error with a message, and leaves
  a world either way. In \<open>startAuth\<close> and \<open>onSubmit\<close> the \<open>try\<close> block and the \<open>catch\<close>
  block are separate definitions, put together by \<open>try_catch\<close>; in the other
  handlers the \<open>try/catch\<close> is the case distinction on the thrown branch.
\<close>

datatype completion = Normal world | Throws string world

fun world_of :: "completion \<Rightarrow> world" where
  "world_of (Normal w) = w"
| "world_of (Throws message w) = w"

fun try_catch :: "completion \<Rightarrow> (string \<Rightarrow> world \<Rightarrow> completion) \<Rightarrow> completion" where
  "try_catch (Normal w) handler = Normal w"
| "try_catch (Throws message w) handler = handler message w"

definition clearInterval_opt :: "nat option \<Rightarrow> world \<Rightarrow> world" where
  "clearInterval_opt hopt w = (case hopt of None \<Rightarrow> w | Some h \<Rightarrow> clearInterval h w)"

definition startAuth_begin :: "world \<Rightarrow> world" where
  "startAuth_begin w =
     (send startTwitterAuth_request (w\<lparr>error := Null\<rparr>))
       \<lparr>startsInFlight := Suc (startsInFlight w)\<rparr>"

definition startAuth_try :: "jsobj outcome \<Rightarrow> world \<Rightarrow> completion" where
  "startAuth_try out w =
     (let w1 = w\<lparr>startsInFlight := startsInFlight w - 1\<rparr> in
      case startTwitterAuth out of
        Inr response \<Rightarrow>
          Normal (w1\<lparr>requestId := js_get response ''request_id'', step := Credentials\<rparr>)
      | Inl message \<Rightarrow> Throws message w1)"

definition startAuth_catch :: "string \<Rightarrow> world \<Rightarrow> completion" where
  "startAuth_catch message w =
     Normal (w\<lparr>error := js_or (JStr message) (JStr ''Failed to start Twitter authentication''),
               step := Error\<rparr>)"

definition startAuth_settle :: "jsobj outcome \<Rightarrow> world \<Rightarrow> completion" where
  "startAuth_settle out w = try_catch (startAuth_try out w) startAuth_catch"

definition startAuth_resume :: "jsobj outcome \<Rightarrow> world \<Rightarrow> world" where
  "startAuth_resume out w = world_of (startAuth_settle out w)"

definition startAuth :: "jsobj outcome \<Rightarrow> world \<Rightarrow> world" where
  "startAuth out w = startAuth_resume out (startAuth_begin w)"

text \<open>
  \<open>if (onSuccess) { onSuccess(response) }\<close>. The callback that the page passes is an
  \<open>async\<close> function: calling it does not throw.
\<close>

definition call_onSuccess :: "(jsobj \<Rightarrow> world \<Rightarrow> world) option \<Rightarrow> jsobj \<Rightarrow> world \<Rightarrow> world" where
  "call_onSuccess onSuccess response w =
     (case onSuccess of None \<Rightarrow> w | Some f \<Rightarrow> f response w)"

definition credentials_of :: "jsobj \<Rightarrow> jsobj" where
  "credentials_of data =
     [(''username'', js_get data ''username''),
      (''password'', js_get data ''password''),
      (''two_factor_token'', js_or (js_get data ''twoFactorToken'') Undefined)]"

definition onSubmit_try ::
  "(jsobj \<Rightarrow> world \<Rightarrow> world) option \<Rightarrow> jsobj \<Rightarrow> jsobj outcome \<Rightarrow> world \<Rightarrow> completion" where
  "onSubmit_try onSuccess data out w =
     (let w1 = w\<lparr>error := Null, step := Processing\<rparr>;
          credentials = credentials_of data;
          w2 = send (completeTwitterAuth_request (requestId w) credentials) w1
      in case completeTwitterAuth out of
        Inr response \<Rightarrow>
          if truthy (js_get response ''success'') then
            Normal
              (setTimeout AutoClose
                (toast ToastSuccess ''Twitter account linked successfully!''
                  (call_onSuccess onSuccess response (w2\<lparr>step := Success\<rparr>))))
          else
            Normal
              (w2\<lparr>error := js_or (js_get response ''error'') (JStr ''Authentication failed''),
                  step := Error\<rparr>)
      | Inl message \<Rightarrow> Throws message w2)"

definition onSubmit_catch :: "string \<Rightarrow> world \<Rightarrow> completion" where
  "onSubmit_catch message w =
     Normal (w\<lparr>error := js_or (JStr message) (JStr ''Failed to authenticate with Twitter''),
               step := Error\<rparr>)"

definition onSubmit_settle ::
  "(jsobj \<Rightarrow> world \<Rightarrow> world) option \<Rightarrow> jsobj \<Rightarrow> jsobj outcome \<Rightarrow> world \<Rightarrow> completion" where
  "onSubmit_settle onSuccess data out w =
     try_catch (onSubmit_try onSuccess data out w) onSubmit_catch"

definition onSubmit ::
  "(jsobj \<Rightarrow> world \<Rightarrow> world) option \<Rightarrow> jsobj \<Rightarrow> jsobj outcome \<Rightarrow> world \<Rightarrow> world" where
  "onSubmit onSuccess data out w = world_of (onSubmit_settle onSuccess data out w)"

definition checkStatus ::
  "(jsobj \<Rightarrow> world \<Rightarrow> world) option \<Rightarrow> jsobj outcome \<Rightarrow> world \<Rightarrow> world" where
  "checkStatus onSuccess out w =
     (let w1 = send (checkTwitterAuthStatus_request (requestId w)) w in
      case checkTwitterAuthStatus out of
        Inr response \<Rightarrow>
          if js_get response ''status'' = JStr ''completed'' then
            call_onSuccess onSuccess response
              ((clearInterval_opt (statusCheckInterval w) w1)\<lparr>step := Success\<rparr>)
          else if js_get response ''status'' = JStr ''failed'' then
            (clearInterval_opt (statusCheckInterval w) w1)
              \<lparr>error := js_or (js_get response ''error'') (JStr ''Authentication failed''),
               step := Error\<rparr>
          else w1
      | Inl message \<Rightarrow> w1)"

section \<open>The linked-account list (Settings)\<close>

definition newAccount :: "jsobj \<Rightarrow> jsobj list \<Rightarrow> jsobj" where
  "newAccount response accounts =
     [(''username'', js_get response ''username''),
      (''display_name'', js_or (js_get response ''display_name'') (js_get response ''username'')),
      (''profile_image_url'',
         js_or (js_get response ''profile_image_url'')
           (JStr ''https://pbs.twimg.com/profile_images/1683899100922511378/5lY42eHs_normal.jpg'')),
      (''is_default'', JBool (length accounts = 0)),
      (''is_active'', JBool True)]"

text \<open>
  \<open>handleTwitterSuccess\<close> is a closure of the render that created it: \<open>captured\<close> is the
  \<open>twitterAccounts\<close> of that render, from which \<open>is_default\<close> of the new entry is
  computed, while the entry is appended to the cache that is current when the update
  runs. The handler sends the fetch, and goes on after the \<open>await\<close> in the world of that
  later moment; \<open>handleTwitterSuccess\<close> is the two halves with nothing in between.
\<close>

definition add_from_response :: "jsobj \<Rightarrow> jsobj list \<Rightarrow> world \<Rightarrow> world" where
  "add_from_response response captured w =
     (if truthy (js_get response ''username'') then
        w\<lparr>twitterAccounts := twitterAccounts w @ [newAccount response captured]\<rparr>
      else w)"

definition handleTwitterSuccess_begin :: "world \<Rightarrow> world" where
  "handleTwitterSuccess_begin w = send getTwitterAccounts_request w"

definition handleTwitterSuccess_resume ::
  "jsobj list \<Rightarrow> jsobj list nullable outcome \<Rightarrow> jsobj \<Rightarrow> world \<Rightarrow> world" where
  "handleTwitterSuccess_resume captured fetch response w =
     (case getTwitterAccounts fetch of
        Inr (Present accounts) \<Rightarrow>
          if length accounts > 0 then w\<lparr>twitterAccounts := accounts\<rparr>
          else add_from_response response captured w
      | Inr IsNull \<Rightarrow> add_from_response response captured w
      | Inr IsUndefined \<Rightarrow> add_from_response response captured w
      | Inl message \<Rightarrow> add_from_response response captured w)"

definition handleTwitterSuccess ::
  "jsobj list \<Rightarrow> jsobj list nullable outcome \<Rightarrow> jsobj \<Rightarrow> world \<Rightarrow> world" where
  "handleTwitterSuccess captured fetch response w =
     handleTwitterSuccess_resume captured fetch response (handleTwitterSuccess_begin w)"

text \<open>
  \<open>handleRemoveTwitterAccount\<close> first asks \<open>window.confirm\<close>; \<open>confirmed\<close> is the answer.
\<close>

definition remove_update :: "string \<Rightarrow> jsobj list \<Rightarrow> jsobj list" where
  "remove_update username prev =
     filter (\<lambda>account. js_get account ''username'' \<noteq> JStr username) prev"

definition handleRemoveTwitterAccount ::
  "bool \<Rightarrow> string \<Rightarrow> jsval outcome \<Rightarrow> world \<Rightarrow> world" where
  "handleRemoveTwitterAccount confirmed username out w =
     (if \<not> confirmed then w
      else
        let w1 = send (removeTwitterAccount_request username) w in
        case removeTwitterAccount out of
          Inr d \<Rightarrow>
            (toast ToastSuccess (''Twitter account @'' @ username @ '' removed successfully'') w1)
              \<lparr>twitterAccounts := remove_update username (twitterAccounts w1)\<rparr>
        | Inl message \<Rightarrow>
            toast ToastError ''Failed to remove Twitter account. Please try again.'' w1)"

definition setDefault_update :: "string \<Rightarrow> jsobj list \<Rightarrow> jsobj list" where
  "setDefault_update username prev =
     map (\<lambda>account.
            js_set ''is_default'' (JBool (js_get account ''username'' = JStr username)) account)
       prev"

definition handleSetDefaultAccount :: "string \<Rightarrow> world \<Rightarrow> world" where
  "handleSetDefaultAccount username w =
     toast ToastSuccess (''@'' @ username @ '' set as default account'')
       (w\<lparr>twitterAccounts := setDefault_update username (twitterAccounts w)\<rparr>)"

text \<open>The accounts shown with the Default badge, and the usernames listed.\<close>

definition is_default :: "jsobj \<Rightarrow> bool" where
  "is_default account = truthy (js_get account ''is_default'')"

definition defaults :: "jsobj list \<Rightarrow> jsobj list" where
  "defaults accounts = filter is_default accounts"

definition usernames :: "jsobj list \<Rightarrow> jsval list" where
  "usernames accounts = map (\<lambda>account. js_get account ''username'') accounts"

section \<open>The events of the page\<close>

text \<open>
  The modal renders nothing while \<open>isOpen\<close> is false; its form exists only in step
  \<open>credentials\<close> and submits only when the required fields are filled in; Try Again
  exists only in step \<open>error\<close>. The handlers that an event calls are those of the current
  render, so that \<open>handleTwitterSuccess\<close> has closed over the current cache.

  The effect of the modal depends on \<open>isOpen\<close>. When \<open>isOpen\<close> changes, the cleanup of
  the effect's previous run clears the interval that it closed over, if any; then the
  effect runs again, calls \<open>startAuth\<close> when the modal is open in step \<open>initial\<close>, and
  leaves a cleanup that closes over the current \<open>statusCheckInterval\<close>.

  No code registers an interval for \<open>checkStatus\<close>; \<open>PollFires\<close> is what such an interval
  would do while it is active.
\<close>

datatype event =
    OpenModal
  | CloseModal
  | StartSettles "jsobj outcome"
  | SubmitForm jsobj "jsobj outcome" "jsobj list nullable outcome"
  | TryAgain
  | TimeoutFires nat
  | PollFires nat "jsobj outcome" "jsobj list nullable outcome"

definition isOpen_effect :: "world \<Rightarrow> world" where
  "isOpen_effect w =
     (let w1 = clearInterval_opt (effectInterval w) w;
          w2 = w1\<lparr>effectInterval := statusCheckInterval w1\<rparr>
      in if isOpen w2 \<and> step w2 = Initial then startAuth_begin w2 else w2)"

definition onClose :: "world \<Rightarrow> world" where
  "onClose w = (if isOpen w then isOpen_effect (w\<lparr>isOpen := False\<rparr>) else w)"

definition form_valid :: "jsobj \<Rightarrow> bool" where
  "form_valid data = (truthy (js_get data ''username'') \<and> truthy (js_get data ''password''))"

fun fire :: "event \<Rightarrow> world \<Rightarrow> world" where
  "fire OpenModal w = (if isOpen w then w else isOpen_effect (w\<lparr>isOpen := True\<rparr>))"
| "fire CloseModal w = onClose w"
| "fire (StartSettles out) w = (if startsInFlight w > 0 then startAuth_resume out w else w)"
| "fire (SubmitForm data out fetch) w =
     (if isOpen w \<and> step w = Credentials \<and> form_valid data
      then onSubmit (Some (handleTwitterSuccess (twitterAccounts w) fetch)) data out w else w)"
| "fire TryAgain w = (if isOpen w \<and> step w = Error then w\<lparr>step := Credentials\<rparr> else w)"
| "fire (TimeoutFires h) w =
     (if (h, AutoClose) \<in> set (timers w)
      then onClose (w\<lparr>timers := filter (\<lambda>(h', t). h' \<noteq> h) (timers w)\<rparr>) else w)"
| "fire (PollFires h out fetch) w =
     (if (h, PollTick) \<in> set (timers w)
      then checkStatus (Some (handleTwitterSuccess (twitterAccounts w) fetch)) out w else w)"

fun run :: "event list \<Rightarrow> world \<Rightarrow> world" where
  "run [] w = w"
| "run (e # es) w = run es (fire e w)"

section \<open>Example values\<close>

definition alice_default :: jsobj where
  "alice_default =
     [(''username'', JStr ''alice''), (''display_name'', JStr ''Alice''),
      (''profile_image_url'', JStr ''http://x/a.png''),
      (''is_default'', JBool True), (''is_active'', JBool True)]"

definition bob_plain :: jsobj where
  "bob_plain =
     [(''username'', JStr ''bob''), (''display_name'', JStr ''Bob''),
      (''profile_image_url'', JStr ''http://x/b.png''),
      (''is_default'', JBool False), (''is_active'', JBool True)]"

text \<open>Bob marked as the default as well.\<close>

definition bob_default :: jsobj where
  "bob_default =
     [(''username'', JStr ''bob''), (''display_name'', JStr ''Bob''),
      (''profile_image_url'', JStr ''http://x/b.png''),
      (''is_default'', JBool True), (''is_active'', JBool True)]"

text \<open>A link result that carries the profile in its top-level fields, as \<open>handleTwitterSuccess\<close> reads it.\<close>

definition flat_link_result :: jsobj where
  "flat_link_result =
     [(''success'', JBool True), (''username'', JStr ''alice''),
      (''display_name'', JStr ''Alice''), (''profile_image_url'', JStr ''http://x/a.png'')]"

text \<open>A link result that nests the profile under \<open>account\<close>.\<close>

definition nested_link_result :: jsobj where
  "nested_link_result =
     [(''success'', JBool True),
      (''account'', JObj [(''username'', JStr ''alice''), (''displayName'', JStr ''Alice''),
                          (''avatarUrl'', JStr ''http://x/a.png'')])]"

definition alice_form :: jsobj where
  "alice_form = [(''username'', JStr ''alice''), (''password'', JStr ''pw'')]"

text \<open>The modal after a successful \<open>start()\<close> that stored the request id \<open>abc123\<close>.\<close>

definition awaiting_world :: world where
  "awaiting_world = initial_world\<lparr> isOpen := True, step := Credentials, requestId := JStr ''abc123'' \<rparr>"

text \<open>A closed modal in step \<open>initial\<close> whose polling interval, handle 7, is still active.\<close>

definition stale_poll_world :: world where
  "stale_poll_world = initial_world\<lparr> statusCheckInterval := Some 7, timers := [(7, PollTick)] \<rparr>"



section \<open>Facts about the definitions\<close>

lemma js_get_js_set_same: "js_get (js_set k v obj) k = v"
  by (induction obj) (auto simp: js_get_def)

lemma js_get_js_set_other: "k' \<noteq> k \<Longrightarrow> js_get (js_set k v obj) k' = js_get obj k'"
  by (induction obj) (auto simp: js_get_def)

lemma is_default_setDefault:
  "is_default (js_set ''is_default'' (JBool b) account) = b"
  by (simp add: is_default_def js_get_js_set_same)

lemma defaults_setDefault_update:
  "defaults (setDefault_update u accounts) =
     map (js_set ''is_default'' (JBool True))
       (filter (\<lambda>account. js_get account ''username'' = JStr u) accounts)"
  by (induction accounts) (auto simp: defaults_def setDefault_update_def is_default_setDefault)

lemma filter_key_absent:
  "y \<notin> f ` set xs \<Longrightarrow> filter (\<lambda>x. f x = y) xs = []"
  by (induction xs) auto

lemma length_filter_distinct_le:
  "distinct (map f xs) \<Longrightarrow> length (filter (\<lambda>x. f x = y) xs) \<le> 1"
proof (induction xs)
  case Nil
  then show ?case by simp
next
  case (Cons x xs)
  show ?case
  proof (cases "f x = y")
    case True
    with Cons.prems have "y \<notin> f ` set xs" by auto
    then have "filter (\<lambda>x. f x = y) xs = []" by (rule filter_key_absent)
    with True show ?thesis by simp
  next
    case False
    with Cons show ?thesis by simp
  qed
qed

lemma length_filter_distinct_eq:
  "distinct (map f xs) \<Longrightarrow> y \<in> f ` set xs \<Longrightarrow> length (filter (\<lambda>x. f x = y) xs) = 1"
proof (induction xs)
  case Nil
  then show ?case by simp
next
  case (Cons x xs)
  show ?case
  proof (cases "f x = y")
    case True
    with Cons.prems have "y \<notin> f ` set xs" by auto
    then have "filter (\<lambda>x. f x = y) xs = []" by (rule filter_key_absent)
    with True show ?thesis by simp
  next
    case False
    with Cons show ?thesis by auto
  qed
qed

lemma defaults_remove_update:
  "length (defaults (remove_update u accounts)) \<le> length (defaults accounts)"
  by (induction accounts) (auto simp: defaults_def remove_update_def)

lemma twitterAccounts_handleSetDefaultAccount:
  "twitterAccounts (handleSetDefaultAccount u w) = setDefault_update u (twitterAccounts w)"
  by (simp add: handleSetDefaultAccount_def toast_def)

lemma setDefault_update_absent:
  "JStr u \<notin> set (usernames accounts) \<Longrightarrow>
   setDefault_update u accounts = map (js_set ''is_default'' (JBool False)) accounts"
  by (induction accounts) (auto simp: setDefault_update_def usernames_def)

lemma twitterAccounts_add_from_response:
  "length (defaults (twitterAccounts w)) \<le> 1 \<Longrightarrow>
   captured = [] \<longrightarrow> defaults (twitterAccounts w) = [] \<Longrightarrow>
   length (defaults (twitterAccounts (add_from_response response captured w))) \<le> 1"
  by (cases "captured = []")
     (auto simp: add_from_response_def defaults_def newAccount_def is_default_def js_get_def)

lemma defaults_handleTwitterSuccess_resume:
  assumes "length (defaults (twitterAccounts w)) \<le> 1"
    and "captured = [] \<longrightarrow> defaults (twitterAccounts w) = []"
    and "\<forall>accounts. fetch = Resolved (Present accounts) \<longrightarrow> length (defaults accounts) \<le> 1"
  shows "length (defaults (twitterAccounts (handleTwitterSuccess_resume captured fetch response w))) \<le> 1"
proof -
  have add: "length (defaults (twitterAccounts (add_from_response response captured w))) \<le> 1"
    using assms(1) assms(2) by (rule twitterAccounts_add_from_response)
  show ?thesis
  proof (cases fetch)
    case (Rejected d)
    with add show ?thesis
      by (simp add: handleTwitterSuccess_resume_def getTwitterAccounts_def settle_def)
  next
    case (Resolved body)
    show ?thesis
    proof (cases body)
      case (Present accounts)
      with Resolved assms(3) add show ?thesis
        by (simp add: handleTwitterSuccess_resume_def getTwitterAccounts_def settle_def)
    qed (use Resolved add in \<open>simp_all add: handleTwitterSuccess_resume_def getTwitterAccounts_def settle_def\<close>)
  qed
qed

lemma twitterAccounts_handleTwitterSuccess:
  "twitterAccounts (handleTwitterSuccess captured fetch response w) =
   twitterAccounts (handleTwitterSuccess_resume captured fetch response w)"
proof (cases fetch)
  case (Resolved body)
  then show ?thesis
    by (cases body)
       (simp_all add: handleTwitterSuccess_def handleTwitterSuccess_begin_def
          handleTwitterSuccess_resume_def getTwitterAccounts_def settle_def send_def
          add_from_response_def)
next
  case (Rejected d)
  then show ?thesis
    by (simp add: handleTwitterSuccess_def handleTwitterSuccess_begin_def
          handleTwitterSuccess_resume_def getTwitterAccounts_def settle_def send_def
          add_from_response_def)
qed

lemma twitterAccounts_handleRemoveTwitterAccount:
  "twitterAccounts (handleRemoveTwitterAccount confirmed u out w) =
     (case out of
        Resolved d \<Rightarrow> if confirmed then remove_update u (twitterAccounts w) else twitterAccounts w
      | Rejected detail \<Rightarrow> twitterAccounts w)"
  by (cases out)
     (simp_all add: handleRemoveTwitterAccount_def removeTwitterAccount_def settle_def send_def toast_def)

lemma defaults_handleRemoveTwitterAccount:
  "length (defaults (twitterAccounts (handleRemoveTwitterAccount confirmed u out w)))
     \<le> length (defaults (twitterAccounts w))"
  by (cases out) (simp_all add: twitterAccounts_handleRemoveTwitterAccount defaults_remove_update)

lemma length_defaults_setDefault_update:
  "length (defaults (setDefault_update u accounts)) =
   length (filter (\<lambda>account. js_get account ''username'' = JStr u) accounts)"
  by (simp add: defaults_setDefault_update)

lemma network_handleRemoveTwitterAccount:
  "network (handleRemoveTwitterAccount confirmed u out w) =
     (if confirmed then network w @ [Request DELETE (''/user/accounts/'' @ u) None] else network w)"
  by (cases out)
     (simp_all add: handleRemoveTwitterAccount_def removeTwitterAccount_def settle_def send_def
        toast_def removeTwitterAccount_request_def)

lemma usernames_remove_update:
  "JStr u \<notin> set (usernames (remove_update u accounts))"
  by (auto simp: usernames_def remove_update_def)

lemma thrown_nonempty: "fallback \<noteq> [] \<Longrightarrow> thrown detail fallback \<noteq> []"
  by (simp add: thrown_def split: option.splits)

lemma error_thrown:
  "fallback \<noteq> [] \<Longrightarrow> js_or (JStr (thrown detail fallback)) other = JStr (thrown detail fallback)"
  by (simp add: js_or_def thrown_nonempty)

lemma network_handleTwitterSuccess:
  "network (handleTwitterSuccess captured fetch response w) = network w @ [Request GET ''/user/twitter-accounts'' None]"
proof (cases fetch)
  case (Resolved body)
  then show ?thesis
    by (cases body)
       (simp_all add: handleTwitterSuccess_def handleTwitterSuccess_begin_def handleTwitterSuccess_resume_def getTwitterAccounts_def settle_def send_def Let_def
          add_from_response_def getTwitterAccounts_request_def)
next
  case (Rejected d)
  then show ?thesis
    by (simp add: handleTwitterSuccess_def handleTwitterSuccess_begin_def handleTwitterSuccess_resume_def getTwitterAccounts_def settle_def send_def Let_def
          add_from_response_def getTwitterAccounts_request_def)
qed

lemma step_handleTwitterSuccess: "step (handleTwitterSuccess captured fetch response w) = step w"
proof (cases fetch)
  case (Resolved body)
  then show ?thesis
    by (cases body)
       (simp_all add: handleTwitterSuccess_def handleTwitterSuccess_begin_def handleTwitterSuccess_resume_def getTwitterAccounts_def settle_def send_def Let_def
          add_from_response_def)
next
  case (Rejected d)
  then show ?thesis
    by (simp add: handleTwitterSuccess_def handleTwitterSuccess_begin_def handleTwitterSuccess_resume_def getTwitterAccounts_def settle_def send_def Let_def
          add_from_response_def)
qed

lemma timers_handleTwitterSuccess: "timers (handleTwitterSuccess captured fetch response w) = timers w"
proof (cases fetch)
  case (Resolved body)
  then show ?thesis
    by (cases body)
       (simp_all add: handleTwitterSuccess_def handleTwitterSuccess_begin_def handleTwitterSuccess_resume_def getTwitterAccounts_def settle_def send_def Let_def
          add_from_response_def)
next
  case (Rejected d)
  then show ?thesis
    by (simp add: handleTwitterSuccess_def handleTwitterSuccess_begin_def handleTwitterSuccess_resume_def getTwitterAccounts_def settle_def send_def Let_def
          add_from_response_def)
qed

lemma onSubmit_success:
  "truthy (js_get response ''success'') \<Longrightarrow>
   onSubmit onSuccess data (Resolved response) w =
     setTimeout AutoClose
       (toast ToastSuccess ''Twitter account linked successfully!''
         (call_onSuccess onSuccess response
           (w\<lparr>error := Null,
              network := network w @ [completeTwitterAuth_request (requestId w) (credentials_of data)],
              step := Success\<rparr>)))"
  by (simp add: onSubmit_def onSubmit_settle_def onSubmit_try_def onSubmit_catch_def completeTwitterAuth_def settle_def send_def Let_def)

lemma onSubmit_failure:
  "\<not> truthy (js_get response ''success'') \<Longrightarrow>
   onSubmit onSuccess data (Resolved response) w =
     w\<lparr>error := js_or (js_get response ''error'') (JStr ''Authentication failed''),
       network := network w @ [completeTwitterAuth_request (requestId w) (credentials_of data)],
       step := Error\<rparr>"
  by (simp add: onSubmit_def onSubmit_settle_def onSubmit_try_def onSubmit_catch_def completeTwitterAuth_def settle_def send_def Let_def)

lemma onSubmit_rejected:
  "onSubmit onSuccess data (Rejected detail) w =
     w\<lparr>error := JStr (thrown detail ''Failed to complete Twitter authentication''),
       network := network w @ [completeTwitterAuth_request (requestId w) (credentials_of data)],
       step := Error\<rparr>"
  by (simp add: onSubmit_def onSubmit_settle_def onSubmit_try_def onSubmit_catch_def completeTwitterAuth_def settle_def send_def Let_def error_thrown)

lemma network_onSubmit:
  "network (onSubmit (Some (handleTwitterSuccess captured fetch)) data out w) =
     network w @ completeTwitterAuth_request (requestId w) (credentials_of data) #
       (case out of
          Resolved response \<Rightarrow>
            if truthy (js_get response ''success'') then [Request GET ''/user/twitter-accounts'' None]
            else []
        | Rejected detail \<Rightarrow> [])"
proof (cases out)
  case (Resolved response)
  then show ?thesis
    by (cases "truthy (js_get response ''success'')")
       (simp_all add: onSubmit_success onSubmit_failure setTimeout_def toast_def call_onSuccess_def
          network_handleTwitterSuccess)
next
  case (Rejected detail)
  then show ?thesis by (simp add: onSubmit_rejected)
qed

lemma step_onSubmit:
  "step (onSubmit (Some (handleTwitterSuccess captured fetch)) data out w) =
     (case out of
        Resolved response \<Rightarrow> if truthy (js_get response ''success'') then Success else Error
      | Rejected detail \<Rightarrow> Error)"
proof (cases out)
  case (Resolved response)
  then show ?thesis
    by (cases "truthy (js_get response ''success'')")
       (simp_all add: onSubmit_success onSubmit_failure setTimeout_def toast_def call_onSuccess_def
          step_handleTwitterSuccess)
next
  case (Rejected detail)
  then show ?thesis by (simp add: onSubmit_rejected)
qed

lemma truthy_defined: "truthy v \<Longrightarrow> v \<noteq> Undefined"
  by (cases v) simp_all

lemma json_body_credentials_of:
  "form_valid data \<Longrightarrow>
   json_body (credentials_of data) =
     [(''username'', js_get data ''username''), (''password'', js_get data ''password'')] @
     (if truthy (js_get data ''twoFactorToken'')
      then [(''two_factor_token'', js_get data ''twoFactorToken'')] else [])"
  by (auto simp: form_valid_def json_body_def credentials_of_def js_or_def dest: truthy_defined)

lemma twitterAccounts_handleTwitterSuccess_empty:
  "twitterAccounts w = [] \<Longrightarrow>
   twitterAccounts (handleTwitterSuccess captured fetch response w) =
     (case fetch of
        Resolved (Present (a # as)) \<Rightarrow> a # as
      | _ \<Rightarrow> if truthy (js_get response ''username'') then [newAccount response captured] else [])"
proof (cases fetch)
  case (Resolved body)
  assume e: "twitterAccounts w = []"
  show ?thesis
  proof (cases body)
    case (Present accounts)
    with Resolved e show ?thesis
      by (cases accounts)
         (simp_all add: handleTwitterSuccess_def handleTwitterSuccess_begin_def handleTwitterSuccess_resume_def getTwitterAccounts_def settle_def send_def Let_def
            add_from_response_def)
  qed (use Resolved e in \<open>simp_all add: handleTwitterSuccess_def handleTwitterSuccess_begin_def handleTwitterSuccess_resume_def getTwitterAccounts_def settle_def
         send_def Let_def add_from_response_def\<close>)
next
  case (Rejected d)
  assume "twitterAccounts w = []"
  with Rejected show ?thesis
    by (simp add: handleTwitterSuccess_def handleTwitterSuccess_begin_def handleTwitterSuccess_resume_def getTwitterAccounts_def settle_def send_def Let_def
          add_from_response_def)
qed

lemma isOpen_effect_fields:
  "timers (isOpen_effect w) = filter (\<lambda>(h, t). Some h \<noteq> effectInterval w) (timers w)
   \<and> effectInterval (isOpen_effect w) = statusCheckInterval w
   \<and> statusCheckInterval (isOpen_effect w) = statusCheckInterval w
   \<and> isOpen (isOpen_effect w) = isOpen w
   \<and> network (isOpen_effect w) =
       (if isOpen w \<and> step w = Initial
        then network w @ [Request POST ''/user/auth/twitter/request'' None] else network w)"
  by (cases "effectInterval w")
     (simp_all add: isOpen_effect_def clearInterval_opt_def clearInterval_def Let_def
        startAuth_begin_def send_def startTwitterAuth_request_def)

lemma fire_closed:
  assumes "\<not> isOpen w" and "timers w = []" and "e \<noteq> OpenModal"
  shows "\<not> isOpen (fire e w) \<and> timers (fire e w) = [] \<and> network (fire e w) = network w"
proof (cases e)
  case (StartSettles out)
  with assms show ?thesis
    by (cases out)
       (simp_all add: startAuth_resume_def startAuth_settle_def startAuth_try_def
          startAuth_catch_def startTwitterAuth_def settle_def Let_def)
qed (use assms in \<open>simp_all add: onClose_def\<close>)

lemma run_closed:
  "\<not> isOpen w \<Longrightarrow> timers w = [] \<Longrightarrow> OpenModal \<notin> set es \<Longrightarrow>
   timers (run es w) = [] \<and> network (run es w) = network w \<and> \<not> isOpen (run es w)"
proof (induction es arbitrary: w)
  case Nil
  then show ?case by simp
next
  case (Cons e es)
  from Cons.prems have ne: "e \<noteq> OpenModal" and rest: "OpenModal \<notin> set es" by auto
  from fire_closed [OF Cons.prems(1) Cons.prems(2) ne]
  have f: "\<not> isOpen (fire e w)" "timers (fire e w) = []" "network (fire e w) = network w"
    by simp_all
  from Cons.IH [OF f(1) f(2) rest] f(3) show ?case by simp
qed

lemma run_append: "run (es @ es') w = run es' (run es w)"
  by (induction es arbitrary: w) simp_all

lemma run_settles:
  "timers (run (map StartSettles outs) w) = timers w
   \<and> network (run (map StartSettles outs) w) = network w
   \<and> isOpen (run (map StartSettles outs) w) = isOpen w
   \<and> effectInterval (run (map StartSettles outs) w) = effectInterval w"
proof (induction outs arbitrary: w)
  case Nil
  then show ?case by simp
next
  case (Cons out outs)
  have "timers (fire (StartSettles out) w) = timers w
      \<and> network (fire (StartSettles out) w) = network w
      \<and> isOpen (fire (StartSettles out) w) = isOpen w
      \<and> effectInterval (fire (StartSettles out) w) = effectInterval w"
    by (cases out)
       (simp_all add: startAuth_resume_def startAuth_settle_def startAuth_try_def
          startAuth_catch_def startTwitterAuth_def settle_def Let_def)
  with Cons.IH [of "fire (StartSettles out) w"] show ?case by simp
qed

lemma tracked_cleared:
  "\<forall>(h, t) \<in> set ts. c = Some h \<Longrightarrow> filter (\<lambda>(h, t). Some h \<noteq> c) ts = []"
  by (auto simp: filter_empty_conv)

lemma tracked_filter:
  "\<forall>(h, t) \<in> set ts. c = Some h \<Longrightarrow> \<forall>(h, t) \<in> set (filter P ts). c = Some h"
  by auto








section \<open>The linking modal: claims\<close>

text \<open>
  Claim C1, as the code has it: \<open>submit\<close> has no guard of its own and no \<open>InvalidState\<close>
  outcome. While the step is \<open>initial\<close> the modal does not render the form, so a submit
  event changes nothing and issues no call. The handler \<open>onSubmit\<close> itself, called in step
  \<open>initial\<close> with no request id stored, issues the complete-link call for the request id
  \<open>null\<close> with the credentials and ends in \<open>success\<close> or \<open>error\<close> as the response says.
\<close>

theorem submit_from_initial_has_no_guard:
  assumes "step w = Initial" and "requestId w = Null"
  shows "fire (SubmitForm data out fetch) w = w
       \<and> network (onSubmit (Some (handleTwitterSuccess captured fetch)) data out w) =
           network w @
           Request POST ''/user/auth/twitter/authenticate/null'' (Some (json_body (credentials_of data))) #
           (case out of
              Resolved response \<Rightarrow>
                if truthy (js_get response ''success'') then [Request GET ''/user/twitter-accounts'' None]
                else []
            | Rejected detail \<Rightarrow> [])
       \<and> step (onSubmit (Some (handleTwitterSuccess captured fetch)) data out w) =
           (case out of
              Resolved response \<Rightarrow> if truthy (js_get response ''success'') then Success else Error
            | Rejected detail \<Rightarrow> Error)"
  using assms by (simp add: network_onSubmit step_onSubmit completeTwitterAuth_request_def)

text \<open>The theorem at the initial world, for a call that the transport fails.\<close>

theorem submit_from_initial_has_no_guard_witness:
  "step initial_world = Initial \<and> requestId initial_world = Null
   \<and> fire (SubmitForm alice_form (Rejected None) (Rejected None)) initial_world = initial_world
   \<and> network (onSubmit (Some (handleTwitterSuccess [] (Rejected None))) alice_form (Rejected None) initial_world) =
       [Request POST ''/user/auth/twitter/authenticate/null''
          (Some [(''username'', JStr ''alice''), (''password'', JStr ''pw'')])]
   \<and> step (onSubmit (Some (handleTwitterSuccess [] (Rejected None))) alice_form (Rejected None) initial_world) = Error"
proof -
  have h1: "step initial_world = Initial" by (simp add: initial_world_def)
  have h2: "requestId initial_world = Null" by (simp add: initial_world_def)
  have n: "network initial_world = []" by (simp add: initial_world_def)
  have b: "json_body (credentials_of alice_form) = [(''username'', JStr ''alice''), (''password'', JStr ''pw'')]"
    by (simp add: json_body_def credentials_of_def js_get_def js_or_def alice_form_def)
  from submit_from_initial_has_no_guard [OF h1 h2, of alice_form "Rejected None" "Rejected None" "[]"] h1 h2 n b
  show ?thesis by simp
qed

text \<open>
  Claim C1 as stated fails: \<open>onSubmit\<close> called in the initial state issues a network call.
\<close>

theorem submit_from_initial_counterexample:
  "step initial_world = Initial \<and> network initial_world = []
   \<and> network (onSubmit None alice_form (Rejected None) initial_world) =
       [Request POST ''/user/auth/twitter/authenticate/null''
          (Some [(''username'', JStr ''alice''), (''password'', JStr ''pw'')])]"
  by (simp add: onSubmit_rejected completeTwitterAuth_request_def json_body_def credentials_of_def
        js_get_def js_or_def alice_form_def initial_world_def)

text \<open>
  Claim C2, as the code has it: when \<open>submit\<close> resolves with a truthy \<open>success\<close>, starting
  from an empty cache, the step becomes \<open>success\<close>, the result is passed to \<open>onSuccess\<close>
  in a world whose step is already \<open>success\<close>, and the auto-close timeout is scheduled.
  With \<open>handleTwitterSuccess\<close> as the callback, the cache afterwards is the freshly fetched
  list when the fetch resolves with a non-empty list; otherwise it holds exactly one entry,
  with the result's top-level \<open>username\<close>, when that \<open>username\<close> is truthy, and stays
  empty when it is not. The entry has \<open>is_default\<close> true exactly when the cache that the
  handler closed over is empty, as it is when the handler is the one of the current
  render.
\<close>

theorem link_success_updates_cache:
  assumes "twitterAccounts w = []" and "truthy (js_get response ''success'')"
  shows "step (onSubmit (Some (handleTwitterSuccess captured fetch)) data (Resolved response) w) = Success
       \<and> (\<exists>w1. step w1 = Success \<and> twitterAccounts w1 = []
             \<and> onSubmit (Some f) data (Resolved response) w =
                 setTimeout AutoClose
                   (toast ToastSuccess ''Twitter account linked successfully!'' (f response w1)))
       \<and> timers (onSubmit (Some (handleTwitterSuccess captured fetch)) data (Resolved response) w) =
           timers w @ [(fresh_handle w, AutoClose)]
       \<and> twitterAccounts (onSubmit (Some (handleTwitterSuccess captured fetch)) data (Resolved response) w) =
           (case fetch of
              Resolved (Present (a # as)) \<Rightarrow> a # as
            | _ \<Rightarrow> if truthy (js_get response ''username'') then [newAccount response captured] else [])
       \<and> js_get (newAccount response captured) ''username'' = js_get response ''username''
       \<and> js_get (newAccount response captured) ''is_default'' = JBool (captured = [])
       \<and> js_get (newAccount response []) ''is_default'' = JBool True
       \<and> fire (SubmitForm data (Resolved response) fetch) (w\<lparr>isOpen := True, step := Credentials\<rparr>) =
           (if form_valid data
            then onSubmit (Some (handleTwitterSuccess [] fetch)) data (Resolved response)
                   (w\<lparr>isOpen := True, step := Credentials\<rparr>)
            else w\<lparr>isOpen := True, step := Credentials\<rparr>)"
proof -
  let ?w1 = "w\<lparr>error := Null,
              network := network w @ [completeTwitterAuth_request (requestId w) (credentials_of data)],
              step := Success\<rparr>"
  have e: "twitterAccounts ?w1 = []" using assms(1) by simp
  have "step ?w1 = Success \<and> twitterAccounts ?w1 = []
      \<and> onSubmit (Some f) data (Resolved response) w =
          setTimeout AutoClose
            (toast ToastSuccess ''Twitter account linked successfully!'' (f response ?w1))"
    using assms by (simp add: onSubmit_success call_onSuccess_def)
  then have emit: "\<exists>w1. step w1 = Success \<and> twitterAccounts w1 = []
             \<and> onSubmit (Some f) data (Resolved response) w =
                 setTimeout AutoClose
                   (toast ToastSuccess ''Twitter account linked successfully!'' (f response w1))"
    by blast
  have st: "step (onSubmit (Some (handleTwitterSuccess captured fetch)) data (Resolved response) w) = Success"
    using assms(2) by (simp add: step_onSubmit)
  have tm: "timers (onSubmit (Some (handleTwitterSuccess captured fetch)) data (Resolved response) w) =
           timers w @ [(fresh_handle w, AutoClose)]"
    using assms(2)
    by (simp add: onSubmit_success call_onSuccess_def setTimeout_def toast_def fresh_handle_def
          timers_handleTwitterSuccess)
  have ca: "twitterAccounts (onSubmit (Some (handleTwitterSuccess captured fetch)) data (Resolved response) w) =
           (case fetch of
              Resolved (Present (a # as)) \<Rightarrow> a # as
            | _ \<Rightarrow> if truthy (js_get response ''username'') then [newAccount response captured] else [])"
    using assms(2) twitterAccounts_handleTwitterSuccess_empty [OF e, of captured fetch response]
    by (simp add: onSubmit_success call_onSuccess_def setTimeout_def toast_def)
  have na: "js_get (newAccount response captured) ''username'' = js_get response ''username''
       \<and> js_get (newAccount response captured) ''is_default'' = JBool (captured = [])
       \<and> js_get (newAccount response []) ''is_default'' = JBool True"
    by (simp add: newAccount_def js_get_def)
  have fr: "fire (SubmitForm data (Resolved response) fetch) (w\<lparr>isOpen := True, step := Credentials\<rparr>) =
           (if form_valid data
            then onSubmit (Some (handleTwitterSuccess [] fetch)) data (Resolved response)
                   (w\<lparr>isOpen := True, step := Credentials\<rparr>)
            else w\<lparr>isOpen := True, step := Credentials\<rparr>)"
    using assms(1) by simp
  from st emit tm ca na fr show ?thesis by blast
qed

text \<open>
  The theorem after \<open>start()\<close> stored \<open>abc123\<close>, for a result with top-level fields: with
  the fetch failing, and with the fetch returning bob.
\<close>

theorem link_success_updates_cache_witness:
  "twitterAccounts (startAuth (Resolved [(''request_id'', JStr ''abc123'')]) initial_world) = []
   \<and> truthy (js_get flat_link_result ''success'')
   \<and> step (onSubmit (Some (handleTwitterSuccess [] (Rejected None))) alice_form (Resolved flat_link_result)
        (startAuth (Resolved [(''request_id'', JStr ''abc123'')]) initial_world)) = Success
   \<and> twitterAccounts (onSubmit (Some (handleTwitterSuccess [] (Rejected None))) alice_form (Resolved flat_link_result)
        (startAuth (Resolved [(''request_id'', JStr ''abc123'')]) initial_world)) =
       [[(''username'', JStr ''alice''), (''display_name'', JStr ''Alice''),
         (''profile_image_url'', JStr ''http://x/a.png''),
         (''is_default'', JBool True), (''is_active'', JBool True)]]
   \<and> twitterAccounts (onSubmit (Some (handleTwitterSuccess [] (Resolved (Present [bob_plain])))) alice_form
        (Resolved flat_link_result)
        (startAuth (Resolved [(''request_id'', JStr ''abc123'')]) initial_world)) = [bob_plain]"
proof -
  let ?w = "startAuth (Resolved [(''request_id'', JStr ''abc123'')]) initial_world"
  have h1: "twitterAccounts ?w = []"
    by (simp add: startAuth_def startAuth_resume_def startAuth_settle_def startAuth_try_def
          startAuth_begin_def startTwitterAuth_def settle_def send_def initial_world_def)
  have h2: "truthy (js_get flat_link_result ''success'')"
    by (simp add: flat_link_result_def js_get_def)
  have u: "truthy (js_get flat_link_result ''username'')"
    by (simp add: flat_link_result_def js_get_def)
  have n: "newAccount flat_link_result [] =
      [(''username'', JStr ''alice''), (''display_name'', JStr ''Alice''),
       (''profile_image_url'', JStr ''http://x/a.png''),
       (''is_default'', JBool True), (''is_active'', JBool True)]"
    by (simp add: newAccount_def flat_link_result_def js_get_def js_or_def)
  from link_success_updates_cache [OF h1 h2, where captured = "[]" and fetch = "Rejected None" and data = alice_form]
       link_success_updates_cache [OF h1 h2, where captured = "[]" and fetch = "Resolved (Present [bob_plain])" and data = alice_form]
       h1 h2 u n
  show ?thesis by simp
qed

text \<open>
  Claim C2 as stated fails: for the result that nests the profile under \<open>account\<close>, with
  the fetch failing, the step is \<open>success\<close> and the cache stays empty.
\<close>

theorem link_success_nested_account_counterexample:
  "step (onSubmit (Some (handleTwitterSuccess [] (Rejected None))) alice_form (Resolved nested_link_result)
        (startAuth (Resolved [(''request_id'', JStr ''abc123'')]) initial_world)) = Success
   \<and> twitterAccounts (onSubmit (Some (handleTwitterSuccess [] (Rejected None))) alice_form (Resolved nested_link_result)
        (startAuth (Resolved [(''request_id'', JStr ''abc123'')]) initial_world)) = []"
  by (simp add: onSubmit_def onSubmit_settle_def onSubmit_try_def completeTwitterAuth_def settle_def
        send_def Let_def call_onSuccess_def handleTwitterSuccess_def handleTwitterSuccess_begin_def
        handleTwitterSuccess_resume_def getTwitterAccounts_def add_from_response_def setTimeout_def
        toast_def nested_link_result_def js_get_def startAuth_def startAuth_resume_def
        startAuth_settle_def startAuth_try_def startAuth_begin_def startTwitterAuth_def
        initial_world_def)







text \<open>
  Claim C8, as the code has it: after the modal is opened in step \<open>initial\<close>, which calls
  \<open>start\<close>, and closed at once, with the start call settling before or after the close,
  the only request ever sent is the start request and no timer is active, whatever
  happens next, for as long as the modal is not opened again. The timers that may be
  active beforehand are those whose handle is in \<open>statusCheckInterval\<close>: the close clears
  them, since the effect that ran at the opening closed over that handle.
\<close>

theorem start_then_cancel_is_quiet:
  assumes "\<not> isOpen w" and "step w = Initial"
    and "\<forall>(h, t) \<in> set (timers w). statusCheckInterval w = Some h"
    and "OpenModal \<notin> set es"
  shows "network (run (OpenModal # map StartSettles outs @ CloseModal # es) w) =
           network w @ [Request POST ''/user/auth/twitter/request'' None]
       \<and> timers (run (OpenModal # map StartSettles outs @ CloseModal # es) w) = []
       \<and> \<not> isOpen (run (OpenModal # map StartSettles outs @ CloseModal # es) w)
       \<and> timers (fire OpenModal w) = filter (\<lambda>(h, t). Some h \<noteq> effectInterval w) (timers w)"
proof -
  let ?opened = "fire OpenModal w"
  let ?settled = "run (map StartSettles outs) ?opened"
  let ?closed = "fire CloseModal ?settled"
  have o: "timers ?opened = filter (\<lambda>(h, t). Some h \<noteq> effectInterval w) (timers w)
      \<and> effectInterval ?opened = statusCheckInterval w
      \<and> isOpen ?opened
      \<and> network ?opened = network w @ [Request POST ''/user/auth/twitter/request'' None]"
    using assms(1) assms(2) by (simp add: isOpen_effect_fields)
  from run_settles [of outs ?opened] o
  have s: "timers ?settled = filter (\<lambda>(h, t). Some h \<noteq> effectInterval w) (timers w)
      \<and> effectInterval ?settled = statusCheckInterval w
      \<and> isOpen ?settled
      \<and> network ?settled = network w @ [Request POST ''/user/auth/twitter/request'' None]"
    by simp
  from s have ts: "timers ?settled = filter (\<lambda>(h, t). Some h \<noteq> effectInterval w) (timers w)"
    by simp
  have tracked: "\<forall>(h, t) \<in> set (timers ?settled). statusCheckInterval w = Some h"
    unfolding ts by (rule tracked_filter [OF assms(3)])
  have cleared: "filter (\<lambda>(h, t). Some h \<noteq> statusCheckInterval w) (timers ?settled) = []"
    by (rule tracked_cleared [OF tracked])
  have cl: "\<not> isOpen ?closed \<and> timers ?closed = [] \<and> network ?closed = network ?settled"
    using s cleared by (simp add: onClose_def isOpen_effect_fields)
  have r: "run (OpenModal # map StartSettles outs @ CloseModal # es) w = run es ?closed"
    by (simp add: run_append)
  from cl have c1: "\<not> isOpen ?closed" and c2: "timers ?closed = []" by simp_all
  from run_closed [OF c1 c2 assms(4)] cl s o show ?thesis unfolding r by simp
qed

text \<open>
  The theorem from the world where an interval polls with its handle stored after the
  effect last ran: the opening leaves the interval active and the close clears it. After
  the close come attempts to submit, poll and retry.
\<close>

theorem start_then_cancel_is_quiet_witness:
  "\<not> isOpen stale_poll_world \<and> step stale_poll_world = Initial
   \<and> timers stale_poll_world = [(7, PollTick)] \<and> statusCheckInterval stale_poll_world = Some 7
   \<and> effectInterval stale_poll_world = None
   \<and> network stale_poll_world = []
   \<and> OpenModal \<notin> set [SubmitForm alice_form (Resolved flat_link_result) (Rejected None),
        StartSettles (Resolved [(''request_id'', JStr ''abc123'')]),
        PollFires 7 (Resolved [(''status'', JStr ''completed'')]) (Rejected None),
        TimeoutFires 1, TryAgain, CloseModal,
        SubmitForm alice_form (Resolved flat_link_result) (Rejected None)]
   \<and> timers (fire OpenModal stale_poll_world) = [(7, PollTick)]
   \<and> network (run (OpenModal # map StartSettles [Rejected None] @ CloseModal #
        [SubmitForm alice_form (Resolved flat_link_result) (Rejected None),
         StartSettles (Resolved [(''request_id'', JStr ''abc123'')]),
         PollFires 7 (Resolved [(''status'', JStr ''completed'')]) (Rejected None),
         TimeoutFires 1, TryAgain, CloseModal,
         SubmitForm alice_form (Resolved flat_link_result) (Rejected None)]) stale_poll_world) =
       [Request POST ''/user/auth/twitter/request'' None]
   \<and> timers (run (OpenModal # map StartSettles [Rejected None] @ CloseModal #
        [SubmitForm alice_form (Resolved flat_link_result) (Rejected None),
         StartSettles (Resolved [(''request_id'', JStr ''abc123'')]),
         PollFires 7 (Resolved [(''status'', JStr ''completed'')]) (Rejected None),
         TimeoutFires 1, TryAgain, CloseModal,
         SubmitForm alice_form (Resolved flat_link_result) (Rejected None)]) stale_poll_world) = []"
proof -
  let ?es = "[SubmitForm alice_form (Resolved flat_link_result) (Rejected None),
        StartSettles (Resolved [(''request_id'', JStr ''abc123'')]),
        PollFires 7 (Resolved [(''status'', JStr ''completed'')]) (Rejected None),
        TimeoutFires 1, TryAgain, CloseModal,
        SubmitForm alice_form (Resolved flat_link_result) (Rejected None)]"
  have h1: "\<not> isOpen stale_poll_world" by (simp add: stale_poll_world_def initial_world_def)
  have h2: "step stale_poll_world = Initial" by (simp add: stale_poll_world_def initial_world_def)
  have t: "timers stale_poll_world = [(7, PollTick)] \<and> statusCheckInterval stale_poll_world = Some 7
      \<and> effectInterval stale_poll_world = None"
    by (simp add: stale_poll_world_def initial_world_def)
  from t have h3: "\<forall>(h, t) \<in> set (timers stale_poll_world). statusCheckInterval stale_poll_world = Some h"
    by simp
  have h4: "OpenModal \<notin> set ?es" by simp
  have n: "network stale_poll_world = []" by (simp add: stale_poll_world_def initial_world_def)
  from start_then_cancel_is_quiet [OF h1 h2 h3 h4, of "[Rejected None]"] h1 h2 h4 n t
  show ?thesis by simp
qed

text \<open>
  Claim C8 as stated fails: the close keeps the modal's state, and the start call that
  resolves after it stores the request id and sets the step to \<open>credentials\<close>; opening
  the modal again then shows the form without a new \<open>start\<close>, and a submit is sent for
  the cancelled request.
\<close>

theorem reopen_after_cancel_counterexample:
  "network (run [OpenModal, CloseModal, StartSettles (Resolved [(''request_id'', JStr ''abc123'')]),
                 OpenModal, SubmitForm alice_form (Rejected None) (Rejected None)] initial_world) =
     [Request POST ''/user/auth/twitter/request'' None,
      Request POST ''/user/auth/twitter/authenticate/abc123''
        (Some [(''username'', JStr ''alice''), (''password'', JStr ''pw'')])]"
  by (simp add: initial_world_def isOpen_effect_def clearInterval_opt_def startAuth_begin_def send_def
        startTwitterAuth_request_def startAuth_resume_def startAuth_settle_def startAuth_try_def
        startTwitterAuth_def settle_def js_get_def onClose_def form_valid_def alice_form_def
        onSubmit_rejected completeTwitterAuth_request_def json_body_def credentials_of_def
        js_or_def Let_def)

text \<open>
  Claim C9, as the code has it: every submission of a valid form sends a POST to
  \<open>/user/auth/twitter/authenticate/{request_id}\<close> whose JSON body has exactly the fields
  \<open>username\<close> and \<open>password\<close>, and \<open>two_factor_token\<close> when the form holds a non-empty
  two-factor code, each with the value of the form.
\<close>

theorem complete_link_request:
  assumes "form_valid data"
  shows "network (onSubmit (Some (handleTwitterSuccess captured fetch)) data out w) =
     network w @
     Request POST (''/user/auth/twitter/authenticate/'' @ template (requestId w))
       (Some ([(''username'', js_get data ''username''), (''password'', js_get data ''password'')] @
              (if truthy (js_get data ''twoFactorToken'')
               then [(''two_factor_token'', js_get data ''twoFactorToken'')] else []))) #
     (case out of
        Resolved response \<Rightarrow>
          if truthy (js_get response ''success'') then [Request GET ''/user/twitter-accounts'' None]
          else []
      | Rejected detail \<Rightarrow> [])"
  using assms
  by (simp add: network_onSubmit completeTwitterAuth_request_def json_body_credentials_of)

text \<open>The theorem for alice, with and without a two-factor code.\<close>

theorem complete_link_request_witness:
  "form_valid [(''username'', JStr ''alice''), (''password'', JStr ''pw''), (''twoFactorToken'', JStr ''123456'')]
   \<and> network (onSubmit (Some (handleTwitterSuccess [] (Rejected None)))
        [(''username'', JStr ''alice''), (''password'', JStr ''pw''), (''twoFactorToken'', JStr ''123456'')]
        (Rejected None) awaiting_world) =
       [Request POST ''/user/auth/twitter/authenticate/abc123''
          (Some [(''username'', JStr ''alice''), (''password'', JStr ''pw''),
                 (''two_factor_token'', JStr ''123456'')])]
   \<and> form_valid [(''username'', JStr ''alice''), (''password'', JStr ''pw''), (''twoFactorToken'', JStr [])]
   \<and> network (onSubmit (Some (handleTwitterSuccess [] (Rejected None)))
        [(''username'', JStr ''alice''), (''password'', JStr ''pw''), (''twoFactorToken'', JStr [])]
        (Rejected None) awaiting_world) =
       [Request POST ''/user/auth/twitter/authenticate/abc123''
          (Some [(''username'', JStr ''alice''), (''password'', JStr ''pw'')])]"
proof -
  have h1: "form_valid [(''username'', JStr ''alice''), (''password'', JStr ''pw''), (''twoFactorToken'', JStr ''123456'')]"
    by (simp add: form_valid_def js_get_def)
  have h2: "form_valid [(''username'', JStr ''alice''), (''password'', JStr ''pw''), (''twoFactorToken'', JStr [])]"
    by (simp add: form_valid_def js_get_def)
  have w: "network awaiting_world = [] \<and> requestId awaiting_world = JStr ''abc123''"
    by (simp add: awaiting_world_def initial_world_def)
  from complete_link_request [OF h1, where captured = "[]" and fetch = "Rejected None"
         and out = "Rejected None" and w = awaiting_world]
       complete_link_request [OF h2, where captured = "[]" and fetch = "Rejected None"
         and out = "Rejected None" and w = awaiting_world] h1 h2 w
  show ?thesis by (simp add: js_get_def)
qed

text \<open>
  Claim C9 as stated fails: the request goes to another path and carries other field names.
\<close>

theorem complete_link_request_counterexample:
  "network (onSubmit None alice_form (Rejected None) awaiting_world) =
     [Request POST ''/user/auth/twitter/authenticate/abc123''
        (Some [(''username'', JStr ''alice''), (''password'', JStr ''pw'')])]
   \<and> network (onSubmit None alice_form (Rejected None) awaiting_world) \<noteq>
     [Request POST ''/user/auth/external/authenticate/abc123''
        (Some [(''identifier'', JStr ''alice''), (''secret'', JStr ''pw'')])]"
  by (simp add: onSubmit_rejected completeTwitterAuth_request_def json_body_def credentials_of_def
        js_get_def js_or_def alice_form_def awaiting_world_def initial_world_def)

section \<open>The linked-account list: claims\<close>

text \<open>
  Claim C3, as the code has it: \<open>setDefault(username)\<close> with a username that no entry of the
  cache carries keeps the entries, their order and every field other than \<open>is_default\<close>,
  and sets \<open>is_default\<close> to false on every entry, so that no entry is the default
  afterwards.
\<close>

theorem setDefault_absent_clears_default:
  assumes "JStr username \<notin> set (usernames (twitterAccounts w))"
  shows "twitterAccounts (handleSetDefaultAccount username w) =
           map (js_set ''is_default'' (JBool False)) (twitterAccounts w)
       \<and> defaults (twitterAccounts (handleSetDefaultAccount username w)) = []
       \<and> (\<forall>k. k \<noteq> ''is_default'' \<longrightarrow>
            map (\<lambda>account. js_get account k) (twitterAccounts (handleSetDefaultAccount username w)) =
            map (\<lambda>account. js_get account k) (twitterAccounts w))"
proof -
  have eq: "twitterAccounts (handleSetDefaultAccount username w) =
      map (js_set ''is_default'' (JBool False)) (twitterAccounts w)"
    using assms by (simp add: twitterAccounts_handleSetDefaultAccount setDefault_update_absent)
  have none: "defaults (map (js_set ''is_default'' (JBool False)) accounts) = []" for accounts
    by (induction accounts) (simp_all add: defaults_def is_default_setDefault)
  have others: "k \<noteq> ''is_default'' \<Longrightarrow>
      map (\<lambda>account. js_get account k) (map (js_set ''is_default'' (JBool False)) accounts) =
      map (\<lambda>account. js_get account k) accounts" for k accounts
    by (induction accounts) (simp_all add: js_get_js_set_other)
  from eq none others show ?thesis by simp
qed

text \<open>The theorem at the cache holding the default account alice, for the absent \<open>bob\<close>.\<close>

theorem setDefault_absent_clears_default_witness:
  "JStr ''bob'' \<notin> set (usernames (twitterAccounts (initial_world\<lparr>twitterAccounts := [alice_default]\<rparr>)))
   \<and> twitterAccounts (handleSetDefaultAccount ''bob'' (initial_world\<lparr>twitterAccounts := [alice_default]\<rparr>)) =
       [[(''username'', JStr ''alice''), (''display_name'', JStr ''Alice''),
         (''profile_image_url'', JStr ''http://x/a.png''),
         (''is_default'', JBool False), (''is_active'', JBool True)]]"
proof -
  have h: "JStr ''bob'' \<notin> set (usernames (twitterAccounts (initial_world\<lparr>twitterAccounts := [alice_default]\<rparr>)))"
    by (simp add: usernames_def alice_default_def js_get_def)
  from setDefault_absent_clears_default [OF h] h show ?thesis
    by (simp add: alice_default_def)
qed

text \<open>
  Claim C3 as stated fails: with alice the default, \<open>setDefault("bob")\<close> changes the cache.
\<close>

theorem setDefault_absent_counterexample:
  "twitterAccounts (handleSetDefaultAccount ''bob'' (initial_world\<lparr>twitterAccounts := [alice_default]\<rparr>))
     \<noteq> twitterAccounts (initial_world\<lparr>twitterAccounts := [alice_default]\<rparr>)"
  by (simp add: twitterAccounts_handleSetDefaultAccount setDefault_update_def alice_default_def js_get_def)

text \<open>
  Claim C4, as the code has it: for a cache that holds an entry for the username,
  \<open>remove(username)\<close> issues the DELETE call exactly when the user confirms the prompt;
  the entry is gone from the cache afterwards exactly when the user confirmed and the call
  resolved, and then every entry with that username is filtered out; when the user
  declines or the call rejects, the cache is unchanged.
\<close>

theorem remove_applies_only_after_confirmed_success:
  assumes "JStr username \<in> set (usernames (twitterAccounts w))"
  shows "network (handleRemoveTwitterAccount confirmed username out w) =
           (if confirmed then network w @ [Request DELETE (''/user/accounts/'' @ username) None]
            else network w)
       \<and> (JStr username \<in> set (usernames (twitterAccounts (handleRemoveTwitterAccount confirmed username out w))))
           = (\<not> (confirmed \<and> (\<exists>d. out = Resolved d)))
       \<and> (confirmed \<and> (\<exists>d. out = Resolved d) \<longrightarrow>
            twitterAccounts (handleRemoveTwitterAccount confirmed username out w) =
              filter (\<lambda>account. js_get account ''username'' \<noteq> JStr username) (twitterAccounts w))
       \<and> (\<not> confirmed \<or> (\<exists>detail. out = Rejected detail) \<longrightarrow>
            twitterAccounts (handleRemoveTwitterAccount confirmed username out w) = twitterAccounts w)"
proof (cases out)
  case (Resolved d)
  with assms usernames_remove_update [of username "twitterAccounts w"] show ?thesis
    by (simp add: network_handleRemoveTwitterAccount twitterAccounts_handleRemoveTwitterAccount
          remove_update_def [symmetric])
next
  case (Rejected detail)
  with assms show ?thesis
    by (simp add: network_handleRemoveTwitterAccount twitterAccounts_handleRemoveTwitterAccount)
qed

text \<open>
  The theorem at the cache of alice and bob, removing alice: the call resolving, resolving
  with \<open>{success: false}\<close>, and rejecting.
\<close>

theorem remove_applies_only_after_confirmed_success_witness:
  "JStr ''alice'' \<in> set (usernames (twitterAccounts (initial_world\<lparr>twitterAccounts := [alice_default, bob_plain]\<rparr>)))
   \<and> network (handleRemoveTwitterAccount True ''alice'' (Resolved Null)
        (initial_world\<lparr>twitterAccounts := [alice_default, bob_plain]\<rparr>)) =
       [Request DELETE ''/user/accounts/alice'' None]
   \<and> twitterAccounts (handleRemoveTwitterAccount True ''alice'' (Resolved Null)
        (initial_world\<lparr>twitterAccounts := [alice_default, bob_plain]\<rparr>)) = [bob_plain]
   \<and> twitterAccounts (handleRemoveTwitterAccount True ''alice'' (Resolved (JObj [(''success'', JBool False)]))
        (initial_world\<lparr>twitterAccounts := [alice_default, bob_plain]\<rparr>)) = [bob_plain]
   \<and> twitterAccounts (handleRemoveTwitterAccount True ''alice'' (Rejected None)
        (initial_world\<lparr>twitterAccounts := [alice_default, bob_plain]\<rparr>)) = [alice_default, bob_plain]"
proof -
  let ?w = "initial_world\<lparr>twitterAccounts := [alice_default, bob_plain]\<rparr>"
  have h: "JStr ''alice'' \<in> set (usernames (twitterAccounts ?w))"
    by (simp add: usernames_def js_get_def alice_default_def)
  have n: "network ?w = []" by (simp add: initial_world_def)
  have f: "filter (\<lambda>account. js_get account ''username'' \<noteq> JStr ''alice'') (twitterAccounts ?w) = [bob_plain]"
    by (simp add: js_get_def alice_default_def bob_plain_def)
  from remove_applies_only_after_confirmed_success [OF h, of True "Resolved Null"]
       remove_applies_only_after_confirmed_success [OF h, of True "Resolved (JObj [(''success'', JBool False)])"]
       remove_applies_only_after_confirmed_success [OF h, of True "Rejected None"] h n f
  show ?thesis by simp
qed

text \<open>
  Claim C4 as stated fails: when the prompt is declined, no DELETE call is issued though
  the cache holds the entry.
\<close>

theorem remove_declined_counterexample:
  "JStr ''alice'' \<in> set (usernames (twitterAccounts (initial_world\<lparr>twitterAccounts := [alice_default]\<rparr>)))
   \<and> network (handleRemoveTwitterAccount False ''alice'' (Resolved Null)
        (initial_world\<lparr>twitterAccounts := [alice_default]\<rparr>)) = []"
  by (simp add: handleRemoveTwitterAccount_def usernames_def js_get_def alice_default_def
        initial_world_def)

text \<open>
  Claim C5, as the code has it. A link success leaves at most one default when the cache
  it updates has at most one, a freshly fetched list, when it replaces the cache, has at
  most one itself, and, in case the handler closed over an empty cache, the cache it
  appends to has no default; the last holds when the handler closed over the cache it
  updates. \<open>remove\<close> leaves at most one default when there was at most one.
  \<open>setDefault\<close> leaves at most one default when the usernames in the cache are pairwise
  distinct, and exactly one when moreover the username is in the cache. In particular, in
  a cache of two accounts with different usernames, \<open>setDefault\<close> on the second leaves the
  second as the only default, whatever the flags were before.
\<close>

theorem at_most_one_default_preserved:
  "(length (defaults (twitterAccounts w)) \<le> 1
      \<and> (captured = [] \<longrightarrow> defaults (twitterAccounts w) = [])
      \<and> (\<forall>accounts. fetch = Resolved (Present accounts) \<longrightarrow> length (defaults accounts) \<le> 1)
     \<longrightarrow> length (defaults (twitterAccounts (handleTwitterSuccess_resume captured fetch response w))) \<le> 1
       \<and> length (defaults (twitterAccounts (handleTwitterSuccess captured fetch response w))) \<le> 1)
   \<and> (length (defaults (twitterAccounts w)) \<le> 1
      \<and> (\<forall>accounts. fetch = Resolved (Present accounts) \<longrightarrow> length (defaults accounts) \<le> 1)
     \<longrightarrow> length (defaults (twitterAccounts
            (handleTwitterSuccess (twitterAccounts w) fetch response w))) \<le> 1)
   \<and> (length (defaults (twitterAccounts w)) \<le> 1
     \<longrightarrow> length (defaults (twitterAccounts (handleRemoveTwitterAccount confirmed u out w))) \<le> 1)
   \<and> (distinct (usernames (twitterAccounts w)) \<longrightarrow>
        length (defaults (twitterAccounts (handleSetDefaultAccount u w))) \<le> 1)
   \<and> (distinct (usernames (twitterAccounts w)) \<and> JStr u \<in> set (usernames (twitterAccounts w)) \<longrightarrow>
        length (defaults (twitterAccounts (handleSetDefaultAccount u w))) = 1)
   \<and> (\<forall>a b. twitterAccounts w = [a, b] \<and> js_get a ''username'' \<noteq> js_get b ''username''
          \<and> js_get b ''username'' = JStr u \<longrightarrow>
        defaults (twitterAccounts (handleSetDefaultAccount u w)) =
          [js_set ''is_default'' (JBool True) b])"
proof (intro conjI impI allI)
  assume a: "length (defaults (twitterAccounts w)) \<le> 1
      \<and> (captured = [] \<longrightarrow> defaults (twitterAccounts w) = [])
      \<and> (\<forall>accounts. fetch = Resolved (Present accounts) \<longrightarrow> length (defaults accounts) \<le> 1)"
  then show r: "length (defaults (twitterAccounts (handleTwitterSuccess_resume captured fetch response w))) \<le> 1"
    by (intro defaults_handleTwitterSuccess_resume) simp_all
  then show "length (defaults (twitterAccounts (handleTwitterSuccess captured fetch response w))) \<le> 1"
    by (simp add: twitterAccounts_handleTwitterSuccess)
next
  assume a: "length (defaults (twitterAccounts w)) \<le> 1
      \<and> (\<forall>accounts. fetch = Resolved (Present accounts) \<longrightarrow> length (defaults accounts) \<le> 1)"
  have e: "twitterAccounts w = [] \<longrightarrow> defaults (twitterAccounts w) = []"
    by (simp add: defaults_def)
  from a e have "length (defaults (twitterAccounts
      (handleTwitterSuccess_resume (twitterAccounts w) fetch response w))) \<le> 1"
    by (intro defaults_handleTwitterSuccess_resume) simp_all
  then show "length (defaults (twitterAccounts
      (handleTwitterSuccess (twitterAccounts w) fetch response w))) \<le> 1"
    by (simp add: twitterAccounts_handleTwitterSuccess)
next
  assume "length (defaults (twitterAccounts w)) \<le> 1"
  with defaults_handleRemoveTwitterAccount [of confirmed u out w]
  show "length (defaults (twitterAccounts (handleRemoveTwitterAccount confirmed u out w))) \<le> 1"
    by simp
next
  assume "distinct (usernames (twitterAccounts w))"
  then show "length (defaults (twitterAccounts (handleSetDefaultAccount u w))) \<le> 1"
    unfolding twitterAccounts_handleSetDefaultAccount length_defaults_setDefault_update usernames_def
    by (rule length_filter_distinct_le)
next
  assume "distinct (usernames (twitterAccounts w)) \<and> JStr u \<in> set (usernames (twitterAccounts w))"
  then show "length (defaults (twitterAccounts (handleSetDefaultAccount u w))) = 1"
    unfolding twitterAccounts_handleSetDefaultAccount length_defaults_setDefault_update usernames_def
    by (intro length_filter_distinct_eq) simp_all
next
  fix a b
  assume "twitterAccounts w = [a, b] \<and> js_get a ''username'' \<noteq> js_get b ''username''
              \<and> js_get b ''username'' = JStr u"
  then show "defaults (twitterAccounts (handleSetDefaultAccount u w)) =
              [js_set ''is_default'' (JBool True) b]"
    by (auto simp: twitterAccounts_handleSetDefaultAccount defaults_setDefault_update)
qed

text \<open>
  The theorem at the cache of alice (the default) and bob, for a link of carol by a
  handler that closed over that cache and for the removal of bob; at the empty cache, for
  a link by a handler that closed over it; and at the cache where alice and bob are both
  marked as default, for \<open>setDefault\<close> on bob.
\<close>

theorem at_most_one_default_preserved_witness:
  "length (defaults (twitterAccounts (initial_world\<lparr>twitterAccounts := [alice_default, bob_plain]\<rparr>))) \<le> 1
   \<and> length (defaults (twitterAccounts
        (handleTwitterSuccess [alice_default, bob_plain] (Rejected None) [(''username'', JStr ''carol'')]
          (initial_world\<lparr>twitterAccounts := [alice_default, bob_plain]\<rparr>)))) \<le> 1
   \<and> length (defaults (twitterAccounts (handleRemoveTwitterAccount True ''bob'' (Resolved Null)
        (initial_world\<lparr>twitterAccounts := [alice_default, bob_plain]\<rparr>)))) \<le> 1
   \<and> defaults (twitterAccounts initial_world) = []
   \<and> length (defaults (twitterAccounts
        (handleTwitterSuccess [] (Rejected None) flat_link_result initial_world))) \<le> 1
   \<and> length (defaults (twitterAccounts (initial_world\<lparr>twitterAccounts := [alice_default, bob_default]\<rparr>))) = 2
   \<and> distinct (usernames (twitterAccounts (initial_world\<lparr>twitterAccounts := [alice_default, bob_default]\<rparr>)))
   \<and> JStr ''bob'' \<in> set (usernames (twitterAccounts (initial_world\<lparr>twitterAccounts := [alice_default, bob_default]\<rparr>)))
   \<and> length (defaults (twitterAccounts (handleSetDefaultAccount ''bob''
        (initial_world\<lparr>twitterAccounts := [alice_default, bob_default]\<rparr>)))) = 1
   \<and> defaults (twitterAccounts (handleSetDefaultAccount ''bob''
        (initial_world\<lparr>twitterAccounts := [alice_default, bob_default]\<rparr>))) = [bob_default]"
proof -
  let ?w = "initial_world\<lparr>twitterAccounts := [alice_default, bob_plain]\<rparr>"
  let ?both = "initial_world\<lparr>twitterAccounts := [alice_default, bob_default]\<rparr>"
  have h1: "length (defaults (twitterAccounts ?w)) \<le> 1"
    by (simp add: defaults_def is_default_def js_get_def alice_default_def bob_plain_def)
  have c1: "[alice_default, bob_plain] = [] \<longrightarrow> defaults (twitterAccounts ?w) = []"
    by simp
  have f: "\<forall>accounts. (Rejected None :: jsobj list nullable outcome) = Resolved (Present accounts)
      \<longrightarrow> length (defaults accounts) \<le> 1"
    by simp
  have h0: "defaults (twitterAccounts initial_world) = []"
    by (simp add: defaults_def initial_world_def)
  then have h0': "length (defaults (twitterAccounts initial_world)) \<le> 1
      \<and> (([] :: jsobj list) = [] \<longrightarrow> defaults (twitterAccounts initial_world) = [])"
    by simp
  have b2: "length (defaults (twitterAccounts ?both)) = 2"
    by (simp add: defaults_def is_default_def js_get_def alice_default_def bob_default_def)
  have h2: "distinct (usernames (twitterAccounts ?both))"
    by (simp add: usernames_def js_get_def alice_default_def bob_default_def)
  have h3: "JStr ''bob'' \<in> set (usernames (twitterAccounts ?both))"
    by (simp add: usernames_def js_get_def alice_default_def bob_default_def)
  have h4: "twitterAccounts ?both = [alice_default, bob_default]
      \<and> js_get alice_default ''username'' \<noteq> js_get bob_default ''username''
      \<and> js_get bob_default ''username'' = JStr ''bob''"
    by (simp add: js_get_def alice_default_def bob_default_def)
  have h5: "js_set ''is_default'' (JBool True) bob_default = bob_default"
    by (simp add: bob_default_def)
  from at_most_one_default_preserved [where w = ?w and captured = "[alice_default, bob_plain]"
         and fetch = "Rejected None" and response = "[(''username'', JStr ''carol'')]"
         and confirmed = True and u = "''bob''" and out = "Resolved Null"] h1 c1 f
  have p1: "length (defaults (twitterAccounts
        (handleTwitterSuccess [alice_default, bob_plain] (Rejected None) [(''username'', JStr ''carol'')] ?w))) \<le> 1
      \<and> length (defaults (twitterAccounts (handleRemoveTwitterAccount True ''bob'' (Resolved Null) ?w))) \<le> 1"
    by blast
  from at_most_one_default_preserved [where w = initial_world and captured = "[]"
         and fetch = "Rejected None" and response = flat_link_result] h0' f
  have p2: "length (defaults (twitterAccounts
        (handleTwitterSuccess [] (Rejected None) flat_link_result initial_world))) \<le> 1"
    by blast
  from at_most_one_default_preserved [where w = ?both and u = "''bob''"] h2 h3 h4 h5
  have p3: "length (defaults (twitterAccounts (handleSetDefaultAccount ''bob'' ?both))) = 1
      \<and> defaults (twitterAccounts (handleSetDefaultAccount ''bob'' ?both)) = [bob_default]"
    by metis
  from h1 p1 h0 p2 b2 h2 h3 p3 show ?thesis by blast
qed

text \<open>
  Claim C5 as stated fails. Linking alice twice while the account fetch fails, each
  handler having closed over the cache it updates, gives two entries for alice, one of
  them the default; \<open>setDefault("alice")\<close> then marks both. And two link successes whose
  handlers both closed over the empty cache, the account fetch failing, each add a
  default.
\<close>

theorem at_most_one_default_counterexample:
  "length (defaults (twitterAccounts
      (handleTwitterSuccess
        (twitterAccounts (handleTwitterSuccess [] (Rejected None) flat_link_result initial_world))
        (Rejected None) flat_link_result
        (handleTwitterSuccess [] (Rejected None) flat_link_result initial_world)))) \<le> 1
   \<and> length (defaults (twitterAccounts (handleSetDefaultAccount ''alice''
      (handleTwitterSuccess
        (twitterAccounts (handleTwitterSuccess [] (Rejected None) flat_link_result initial_world))
        (Rejected None) flat_link_result
        (handleTwitterSuccess [] (Rejected None) flat_link_result initial_world))))) = 2
   \<and> length (defaults (twitterAccounts
      (handleTwitterSuccess_resume [] (Rejected None) [(''username'', JStr ''bob'')]
        (handleTwitterSuccess_resume [] (Rejected None) flat_link_result
          (handleTwitterSuccess_begin (handleTwitterSuccess_begin initial_world)))))) = 2"
  by (simp add: handleTwitterSuccess_def handleTwitterSuccess_begin_def
        handleTwitterSuccess_resume_def getTwitterAccounts_def settle_def send_def
        add_from_response_def newAccount_def handleSetDefaultAccount_def setDefault_update_def
        toast_def defaults_def is_default_def js_get_def js_or_def flat_link_result_def
        initial_world_def)

section \<open>authService: claims\<close>

text \<open>
  Claim C10, as the code has it: \<open>hasLinkedTwitterAccount\<close> never throws; it returns
  \<open>true\<close> exactly when the fetch resolves with a non-empty list; it returns \<open>false\<close> when
  the list is empty and when the fetch rejects; when the list is absent it returns the
  absent value itself (\<open>null\<close> or \<open>undefined\<close>), which is falsy but is not \<open>false\<close>.
\<close>

theorem hasLinkedTwitterAccount_result:
  "(hasLinkedTwitterAccount out = Present True) =
      (\<exists>accounts. out = Resolved (Present accounts) \<and> accounts \<noteq> [])
   \<and> hasLinkedTwitterAccount (Resolved (Present [])) = Present False
   \<and> hasLinkedTwitterAccount (Rejected detail) = Present False
   \<and> hasLinkedTwitterAccount (Resolved IsNull) = IsNull
   \<and> hasLinkedTwitterAccount (Resolved IsUndefined) = IsUndefined"
proof -
  have "(hasLinkedTwitterAccount out = Present True) =
      (\<exists>accounts. out = Resolved (Present accounts) \<and> accounts \<noteq> [])"
  proof (cases out)
    case (Resolved body)
    then show ?thesis
      by (cases body) (simp_all add: hasLinkedTwitterAccount_def getTwitterAccounts_def settle_def)
  next
    case (Rejected d)
    then show ?thesis
      by (simp add: hasLinkedTwitterAccount_def getTwitterAccounts_def settle_def)
  qed
  then show ?thesis
    by (simp add: hasLinkedTwitterAccount_def getTwitterAccounts_def settle_def)
qed

text \<open>The theorem at a list of one account, and at a rejection.\<close>

theorem hasLinkedTwitterAccount_result_witness:
  "hasLinkedTwitterAccount (Resolved (Present [alice_default])) = Present True
   \<and> hasLinkedTwitterAccount (Resolved (Present [])) = Present False
   \<and> hasLinkedTwitterAccount (Rejected (Some ''Not authenticated'')) = Present False"
  using hasLinkedTwitterAccount_result [of "Resolved (Present [alice_default])" "Some ''Not authenticated''"]
  by simp

text \<open>Claim C10 as stated fails: for an absent list the result is \<open>null\<close>, not \<open>false\<close>.\<close>

theorem hasLinkedTwitterAccount_absent_counterexample:
  "hasLinkedTwitterAccount (Resolved IsNull) \<noteq> Present False"
  by (simp add: hasLinkedTwitterAccount_def getTwitterAccounts_def settle_def)

end
